theory Spec2Isabelle
  imports Main
begin

section \<open>Text and JSON values\<close>

text \<open>
  Python text is modelled as \<^typ>\<open>string\<close>: a list of characters with code points
  0 to 255. The characters that need care are written by code point.
\<close>

definition dquote :: char where
  "dquote = CHR 0x22"

definition backslash :: char where
  "backslash = CHR 0x5C"

text \<open>
  \<^verbatim>\<open>str.strip()\<close> removes leading and trailing whitespace. Below code point 256 the
  characters Python counts as whitespace are 0x09 to 0x0D, 0x1C to 0x20, 0x85 and 0xA0.
\<close>

definition is_space :: "char \<Rightarrow> bool" where
  "is_space c =
     (let n = (of_char c :: nat)
      in (9 \<le> n \<and> n \<le> 13) \<or> (28 \<le> n \<and> n \<le> 32) \<or> n = 133 \<or> n = 160)"

definition py_strip :: "string \<Rightarrow> string" where
  "py_strip s = rev (dropWhile is_space (rev (dropWhile is_space s)))"

text \<open>Decimal text of integers, as \<^verbatim>\<open>int.__repr__\<close> prints them.\<close>

definition digit_char :: "nat \<Rightarrow> char" where
  "digit_char d = ''0123456789abcdef'' ! (d mod 16)"

function show_nat :: "nat \<Rightarrow> string" where
  "show_nat n = (if n < 10 then [digit_char n] else show_nat (n div 10) @ [digit_char (n mod 10)])"
  by pat_completeness auto
termination
  by (relation "measure id") auto

declare show_nat.simps [simp del]

definition show_int :: "int \<Rightarrow> string" where
  "show_int i = (if i < 0 then CHR ''-'' # show_nat (nat (- i)) else show_nat (nat i))"

text \<open>
  The values \<^verbatim>\<open>json.loads\<close> produces and \<^verbatim>\<open>json.dumps\<close> accepts without failing.
  A float is carried as the text \<^verbatim>\<open>json.dumps\<close> prints for it; an object is an
  association list in insertion order.
\<close>

datatype json =
    JNull
  | JBool bool
  | JInt int
  | JFloat string
  | JStr string
  | JList "json list"
  | JDict "(string \<times> json) list"

text \<open>
  \<^verbatim>\<open>json.dumps\<close> with its default settings: \<^verbatim>\<open>ensure_ascii=True\<close> and the separators
  \<^verbatim>\<open>", "\<close> and \<^verbatim>\<open>": "\<close>. Inside a string the quote and the backslash are escaped with a
  backslash, the control characters 8, 9, 10, 12 and 13 have short escapes, and every
  other character outside 0x20 to 0x7E is written \<^verbatim>\<open>\u00XX\<close>.
\<close>

definition escape_char :: "char \<Rightarrow> string" where
  "escape_char c =
     (let n = (of_char c :: nat)
      in if c = dquote then [backslash, dquote]
         else if c = backslash then [backslash, backslash]
         else if n = 10 then [backslash, CHR ''n'']
         else if n = 13 then [backslash, CHR ''r'']
         else if n = 9 then [backslash, CHR ''t'']
         else if n = 8 then [backslash, CHR ''b'']
         else if n = 12 then [backslash, CHR ''f'']
         else if 32 \<le> n \<and> n \<le> 126 then [c]
         else [backslash, CHR ''u'', CHR ''0'', CHR ''0'', digit_char (n div 16), digit_char (n mod 16)])"

definition encode_str :: "string \<Rightarrow> string" where
  "encode_str s = [dquote] @ concat (map escape_char s) @ [dquote]"

fun join :: "string \<Rightarrow> string list \<Rightarrow> string" where
  "join sep [] = []"
| "join sep [x] = x"
| "join sep (x # y # ys) = x @ sep @ join sep (y # ys)"

fun dumps :: "json \<Rightarrow> string"
  and dumps_items :: "json list \<Rightarrow> string list"
  and dumps_pairs :: "(string \<times> json) list \<Rightarrow> string list" where
  "dumps JNull = ''null''"
| "dumps (JBool b) = (if b then ''true'' else ''false'')"
| "dumps (JInt i) = show_int i"
| "dumps (JFloat t) = t"
| "dumps (JStr s) = encode_str s"
| "dumps (JList xs) = ''['' @ join '', '' (dumps_items xs) @ '']''"
| "dumps (JDict kvs) = ''{'' @ join '', '' (dumps_pairs kvs) @ ''}''"
| "dumps_items [] = []"
| "dumps_items (x # xs) = dumps x # dumps_items xs"
| "dumps_pairs [] = []"
| "dumps_pairs ((k, v) # kvs) = (encode_str k @ '': '' @ dumps v) # dumps_pairs kvs"


section \<open>Python values, tracebacks and exceptions\<close>

text \<open>
  What a handler may return: the JSON-like values and any other object, which is known
  by its class name only. As above a float is carried as the text \<^verbatim>\<open>json.dumps\<close>
  prints for it. Cyclic values are not represented.
\<close>

datatype pyval =
    PNone
  | PBool bool
  | PInt int
  | PFloat string
  | PStr string
  | PList "pyval list"
  | PDict "(pyval \<times> pyval) list"
  | PObj string

text \<open>
  \<^verbatim>\<open>json.dumps\<close> on a Python value raises \<^verbatim>\<open>TypeError\<close> at an object it has no
  encoding for and at a dictionary key that is not a string, a number, a boolean or
  \<^verbatim>\<open>None\<close>; the admissible keys are turned into strings. \<open>to_json\<close> is that
  conversion, \<open>None\<close> standing for the \<^verbatim>\<open>TypeError\<close>.
\<close>

fun key_text :: "pyval \<Rightarrow> string option" where
  "key_text (PStr s) = Some s"
| "key_text (PFloat t) = Some t"
| "key_text (PBool b) = Some (if b then ''true'' else ''false'')"
| "key_text PNone = Some ''null''"
| "key_text (PInt i) = Some (show_int i)"
| "key_text _ = None"

fun to_json :: "pyval \<Rightarrow> json option"
  and to_json_items :: "pyval list \<Rightarrow> json list option"
  and to_json_pairs :: "(pyval \<times> pyval) list \<Rightarrow> (string \<times> json) list option" where
  "to_json PNone = Some JNull"
| "to_json (PBool b) = Some (JBool b)"
| "to_json (PInt i) = Some (JInt i)"
| "to_json (PFloat t) = Some (JFloat t)"
| "to_json (PStr s) = Some (JStr s)"
| "to_json (PList xs) = map_option JList (to_json_items xs)"
| "to_json (PDict kvs) = map_option JDict (to_json_pairs kvs)"
| "to_json (PObj c) = None"
| "to_json_items [] = Some []"
| "to_json_items (x # xs) =
     (case to_json x of None \<Rightarrow> None
      | Some j \<Rightarrow> (case to_json_items xs of None \<Rightarrow> None | Some js \<Rightarrow> Some (j # js)))"
| "to_json_pairs [] = Some []"
| "to_json_pairs ((k, v) # kvs) =
     (case key_text k of None \<Rightarrow> None
      | Some t \<Rightarrow>
         (case to_json v of None \<Rightarrow> None
          | Some j \<Rightarrow>
             (case to_json_pairs kvs of None \<Rightarrow> None | Some js \<Rightarrow> Some ((t, j) # js))))"

definition py_dumps :: "pyval \<Rightarrow> string option" where
  "py_dumps v = map_option dumps (to_json v)"

text \<open>The decoded JSON values as Python values.\<close>

fun of_json :: "json \<Rightarrow> pyval"
  and of_json_items :: "json list \<Rightarrow> pyval list"
  and of_json_pairs :: "(string \<times> json) list \<Rightarrow> (pyval \<times> pyval) list" where
  "of_json JNull = PNone"
| "of_json (JBool b) = PBool b"
| "of_json (JInt i) = PInt i"
| "of_json (JFloat t) = PFloat t"
| "of_json (JStr s) = PStr s"
| "of_json (JList xs) = PList (of_json_items xs)"
| "of_json (JDict kvs) = PDict (of_json_pairs kvs)"
| "of_json_items [] = []"
| "of_json_items (x # xs) = of_json x # of_json_items xs"
| "of_json_pairs [] = []"
| "of_json_pairs ((k, v) # kvs) = (PStr k, of_json v) # of_json_pairs kvs"

fun is_dict :: "pyval \<Rightarrow> bool" where
  "is_dict (PDict kvs) = True"
| "is_dict _ = False"

fun type_name :: "pyval \<Rightarrow> string" where
  "type_name PNone = ''NoneType''"
| "type_name (PBool b) = ''bool''"
| "type_name (PInt i) = ''int''"
| "type_name (PFloat t) = ''float''"
| "type_name (PStr s) = ''str''"
| "type_name (PList xs) = ''list''"
| "type_name (PDict kvs) = ''dict''"
| "type_name (PObj c) = c"

text \<open>
  One entry of a traceback: the file of the code object, the line and the function
  name. A traceback is the list of its entries, outermost call first; the tail of the
  list is what \<^verbatim>\<open>tb_next\<close> points to, and the empty list is \<^verbatim>\<open>None\<close>.
\<close>

record frame =
  co_filename :: string
  tb_lineno :: nat
  co_name :: string

text \<open>
  An exception object, an instance of \<^verbatim>\<open>Exception\<close>: its class name, whether it is
  an instance of \<^verbatim>\<open>TimeoutError\<close>, the text of \<^verbatim>\<open>str(e)\<close> and its traceback.
\<close>

record pyexc =
  exc_class :: string
  exc_is_timeout :: bool
  exc_msg :: string
  exc_tb :: "frame list"

text \<open>
  The services of the Python runtime that the host calls and that are not part of it:
  the JSON decoder (\<open>None\<close> when it raises \<^verbatim>\<open>ValueError\<close>), \<^verbatim>\<open>repr\<close>, the
  traceback formatter, and the path of the host's own source file, which is the
  \<^verbatim>\<open>co_filename\<close> of its frames.
\<close>

record pylib =
  json_loads :: "string \<Rightarrow> json option"
  py_repr :: "pyval \<Rightarrow> string"
  format_list :: "frame list \<Rightarrow> string list"
  host_file :: string

text \<open>\<^verbatim>\<open>str(v)\<close>, which an f-string applies: a string is itself, any other modelled value prints as its \<^verbatim>\<open>repr\<close>.\<close>

definition py_str :: "pylib \<Rightarrow> pyval \<Rightarrow> string" where
  "py_str lib v = (case v of PStr s \<Rightarrow> s | _ \<Rightarrow> py_repr lib v)"

definition host_frame :: "pylib \<Rightarrow> nat \<Rightarrow> string \<Rightarrow> frame" where
  "host_frame lib line name = \<lparr>co_filename = host_file lib, tb_lineno = line, co_name = name\<rparr>"

text \<open>An exception that leaves a function gets that function's frame at the head of its traceback.\<close>

definition passing :: "frame \<Rightarrow> pyexc \<Rightarrow> pyexc" where
  "passing f e = e\<lparr>exc_tb := f # exc_tb e\<rparr>"


section \<open>The handler unit and what it does during one call\<close>

text \<open>A loaded module object: its identity and the names bound in its namespace.\<close>

record pymodule =
  mod_id :: nat
  mod_attrs :: "string list"

fun hasattr :: "pymodule option \<Rightarrow> string \<Rightarrow> bool" where
  "hasattr None name = False"
| "hasattr (Some m) name = (name \<in> set (mod_attrs m))"

text \<open>
  How a piece of foreign code (the module's top level, or one of its entry points) ends
  when the worker thread runs it: it returns, it raises an \<^verbatim>\<open>Exception\<close>, or it is
  still running when the deadline of \<^verbatim>\<open>thread.join\<close> elapses. \<open>run_writes\<close> are
  the texts it has passed to \<^verbatim>\<open>sys.stdout.write\<close> up to that point, in order.
  The worker is taken to run in one piece: what a thread does after its deadline is not
  represented.
\<close>

datatype call_outcome = Returned pyval | Raised pyexc | Hung

record handler_run =
  run_writes :: "string list"
  run_outcome :: call_outcome

text \<open>
  Lines 29 to 31 of the loader: either no module object can be made from the file (the
  call on line 30 raises), or a module object is made and its top level is run.
\<close>

datatype load_outcome = Spec_failed pyexc | Spec_ok pymodule handler_run

text \<open>
  The surroundings of the host while it processes one input line: whether the handler
  file exists, what loading it does, and what an entry point does when called by name
  with the given arguments.
\<close>

record call_env =
  env_isfile :: bool
  env_load :: load_outcome
  env_call :: "string \<Rightarrow> json list \<Rightarrow> handler_run"

section \<open>Output streams\<close>

text \<open>
  A buffered text stream of the process: what has been written and not yet flushed, and
  what has left the process.
\<close>

record stream =
  pending :: string
  delivered :: string

definition stream_write :: "string \<Rightarrow> stream \<Rightarrow> stream" where
  "stream_write s out = out\<lparr>pending := pending out @ s\<rparr>"

definition stream_flush :: "stream \<Rightarrow> stream" where
  "stream_flush out = \<lparr>pending = [], delivered = delivered out @ pending out\<rparr>"

text \<open>
  The object bound to \<^verbatim>\<open>sys.stdout\<close>: the process's own stream, or an
  \<^verbatim>\<open>OutputInterceptor\<close> holding the object it replaced and a message builder.
\<close>

datatype sink = Original_stdout | OutputInterceptor sink "string \<Rightarrow> string"

text \<open>The methods \<^verbatim>\<open>write\<close> and \<^verbatim>\<open>flush\<close> of the two kinds of object.\<close>

fun sink_flush :: "sink \<Rightarrow> stream \<Rightarrow> stream" where
  "sink_flush Original_stdout out = stream_flush out"
| "sink_flush (OutputInterceptor original_stdout message_builder) out = out"

fun sink_write :: "sink \<Rightarrow> string \<Rightarrow> stream \<Rightarrow> stream" where
  "sink_write Original_stdout message out = stream_write message out"
| "sink_write (OutputInterceptor original_stdout message_builder) message out =
     (if py_strip message \<noteq> []
      then sink_flush original_stdout
             (sink_write original_stdout (message_builder (py_strip message)) out)
      else out)"

section \<open>The host\<close>

record DataProcessor =
  filename :: string
  module :: "pymodule option"
  timeout :: nat

definition DataProcessor_init :: "string \<Rightarrow> nat \<Rightarrow> DataProcessor" where
  "DataProcessor_init file secs = \<lparr>filename = file, module = None, timeout = secs\<rparr>"

text \<open>
  The state of the process: the processor object, the object bound to
  \<^verbatim>\<open>sys.stdout\<close>, the two real streams, and a counter of how many times line 31
  (\<^verbatim>\<open>spec.loader.exec_module\<close>) has been entered. The counter is not in the source; it
  records the loads.
\<close>

record world =
  processor :: DataProcessor
  sys_stdout :: sink
  real_stdout :: stream
  sys_stderr :: stream
  exec_count :: nat

definition stdout_write :: "string \<Rightarrow> world \<Rightarrow> world" where
  "stdout_write s w = w\<lparr>real_stdout := sink_write (sys_stdout w) s (real_stdout w)\<rparr>"

definition stdout_flush :: "world \<Rightarrow> world" where
  "stdout_flush w = w\<lparr>real_stdout := sink_flush (sys_stdout w) (real_stdout w)\<rparr>"

text \<open>\<^verbatim>\<open>print(text)\<close> writes the text and then the line end, as two writes.\<close>

definition py_print :: "string \<Rightarrow> world \<Rightarrow> world" where
  "py_print text w = stdout_write ''\<newline>'' (stdout_write text w)"

definition print_stderr :: "string \<Rightarrow> world \<Rightarrow> world" where
  "print_stderr text w =
     w\<lparr>sys_stderr := stream_write ''\<newline>'' (stream_write text (sys_stderr w))\<rparr>"

text \<open>The writes of foreign code go to whatever \<^verbatim>\<open>sys.stdout\<close> is bound to.\<close>

definition emit :: "string list \<Rightarrow> world \<Rightarrow> world" where
  "emit ws w = foldl (\<lambda>w' s. stdout_write s w') w ws"

definition get_standard_output_message :: "string \<Rightarrow> string" where
  "get_standard_output_message message =
     dumps (JDict [(''Event'', JStr ''StandardOutput''), (''Status'', JStr ''ok''),
                   (''Data'', JStr message)]) @ ''\<newline>''"

definition print_output :: "json \<Rightarrow> string \<Rightarrow> string \<Rightarrow> world \<Rightarrow> world" where
  "print_output event status message w =
     stdout_flush
       (py_print (dumps (JDict [(''Event'', event), (''Status'', JStr status),
                                (''Data'', JStr message)])) w)"

definition print_error :: "json \<Rightarrow> string \<Rightarrow> world \<Rightarrow> world" where
  "print_error event message w =
     (let w1 = print_stderr (message @ ''\<newline>'') w;
          w2 = w1\<lparr>sys_stderr := stream_flush (sys_stderr w1)\<rparr>;
          result = JDict [(''status'', JStr ''error''),
                          (''message'', JStr ''see error log for details'')]
      in print_output event ''error'' (dumps result) w2)"


subsection \<open>The class \<^verbatim>\<open>DataProcessor\<close>\<close>

definition squote :: char where
  "squote = CHR 0x27"

definition FileNotFoundError :: "string \<Rightarrow> frame list \<Rightarrow> pyexc" where
  "FileNotFoundError msg tb =
     \<lparr>exc_class = ''FileNotFoundError'', exc_is_timeout = False, exc_msg = msg, exc_tb = tb\<rparr>"

definition AttributeError :: "string \<Rightarrow> frame list \<Rightarrow> pyexc" where
  "AttributeError msg tb =
     \<lparr>exc_class = ''AttributeError'', exc_is_timeout = False, exc_msg = msg, exc_tb = tb\<rparr>"

definition TimeoutError :: "string \<Rightarrow> frame list \<Rightarrow> pyexc" where
  "TimeoutError msg tb =
     \<lparr>exc_class = ''TimeoutError'', exc_is_timeout = True, exc_msg = msg, exc_tb = tb\<rparr>"

definition ValueError :: "string \<Rightarrow> frame list \<Rightarrow> pyexc" where
  "ValueError msg tb =
     \<lparr>exc_class = ''ValueError'', exc_is_timeout = False, exc_msg = msg, exc_tb = tb\<rparr>"

text \<open>
  \<^verbatim>\<open>_load_module\<close>. The module object is stored in the processor on line 30, before its
  top level runs on line 31, so it stays stored when the top level raises or hangs.
\<close>

definition load_module :: "pylib \<Rightarrow> call_env \<Rightarrow> world \<Rightarrow> call_outcome \<times> world" where
  "load_module lib env w =
     (if \<not> env_isfile env
      then (Raised (FileNotFoundError
                      (''File '' @ filename (processor w) @ '' does not exist'')
                      [host_frame lib 27 ''_load_module'']), w)
      else
        (case env_load env of
           Spec_failed e \<Rightarrow> (Raised (passing (host_frame lib 30 ''_load_module'') e), w)
         | Spec_ok m run \<Rightarrow>
             (let w1 = w\<lparr>processor := (processor w)\<lparr>module := Some m\<rparr>,
                         exec_count := Suc (exec_count w)\<rparr>;
                  w2 = emit (run_writes run) w1
              in (case run_outcome run of
                    Returned v \<Rightarrow> (Returned PNone, w2)
                  | Raised e \<Rightarrow> (Raised (passing (host_frame lib 31 ''_load_module'') e), w2)
                  | Hung \<Rightarrow> (Hung, w2)))))"

text \<open>
  The three methods \<^verbatim>\<open>execute_on_create\<close>, \<^verbatim>\<open>execute_on_receive\<close> and
  \<^verbatim>\<open>execute_on_destroy\<close> have one body, up to the name of the entry point, its
  arguments and the line numbers of the method.
\<close>

definition execute_entry ::
  "pylib \<Rightarrow> string \<Rightarrow> string \<Rightarrow> json list \<Rightarrow> nat \<Rightarrow> call_env \<Rightarrow> world \<Rightarrow> call_outcome \<times> world" where
  "execute_entry lib method entry args line env w =
     (case (if module (processor w) = None then load_module lib env w else (Returned PNone, w)) of
        (Raised e, w1) \<Rightarrow> (Raised (passing (host_frame lib line method) e), w1)
      | (Hung, w1) \<Rightarrow> (Hung, w1)
      | (Returned u, w1) \<Rightarrow>
          (if hasattr (module (processor w1)) entry
           then
             (let run = env_call env entry args;
                  w2 = emit (run_writes run) w1
              in (case run_outcome run of
                    Returned v \<Rightarrow> (Returned v, w2)
                  | Raised e \<Rightarrow> (Raised (passing (host_frame lib (line + 3) method) e), w2)
                  | Hung \<Rightarrow> (Hung, w2)))
           else
             (Raised (AttributeError
                        (''The module does not have an '' @ [squote] @ entry @ [squote]
                           @ '' function.'')
                        [host_frame lib (line + 5) method]), w1)))"

definition execute_on_create :: "pylib \<Rightarrow> json \<Rightarrow> call_env \<Rightarrow> world \<Rightarrow> call_outcome \<times> world" where
  "execute_on_create lib data = execute_entry lib ''execute_on_create'' ''on_create'' [data] 36"

definition execute_on_receive :: "pylib \<Rightarrow> json \<Rightarrow> call_env \<Rightarrow> world \<Rightarrow> call_outcome \<times> world" where
  "execute_on_receive lib data = execute_entry lib ''execute_on_receive'' ''on_receive'' [data] 46"

definition execute_on_destroy :: "pylib \<Rightarrow> call_env \<Rightarrow> world \<Rightarrow> call_outcome \<times> world" where
  "execute_on_destroy lib = execute_entry lib ''execute_on_destroy'' ''on_destroy'' [] 56"

text \<open>
  \<^verbatim>\<open>execute_with_timeout\<close>: \<open>Inl\<close> is the exception the method raises, \<open>Inr\<close> the
  value it returns. An exception of the worker is raised again on line 81 with the
  frames of \<^verbatim>\<open>target\<close> and of this method in front of its traceback. The test
  \<^verbatim>\<open>if exception:\<close> succeeds for every exception object: exception classes that define
  their own truth value are not represented.
\<close>

definition execute_with_timeout ::
  "pylib \<Rightarrow> (world \<Rightarrow> call_outcome \<times> world) \<Rightarrow> world \<Rightarrow> (pyexc + pyval) \<times> world" where
  "execute_with_timeout lib func w =
     (case func w of
        (Hung, w1) \<Rightarrow>
          (Inl (TimeoutError
                  (''Execution timed out after '' @ show_nat (timeout (processor w1)) @ '' seconds'')
                  [host_frame lib 79 ''execute_with_timeout'']), w1)
      | (Raised e, w1) \<Rightarrow>
          (Inl (passing (host_frame lib 81 ''execute_with_timeout'')
                  (passing (host_frame lib 70 ''target'') e)), w1)
      | (Returned v, w1) \<Rightarrow> (Inr v, w1))"

subsection \<open>The class \<^verbatim>\<open>ProcessEvent\<close>\<close>

text \<open>
  The context manager \<^verbatim>\<open>stdout_interceptor\<close> around a block: the block runs with
  \<^verbatim>\<open>sys.stdout\<close> bound to a new interceptor, and the \<^verbatim>\<open>finally\<close> clause binds it
  back however the block ends.
\<close>

definition stdout_interceptor ::
  "(string \<Rightarrow> string) \<Rightarrow> (world \<Rightarrow> 'a \<times> world) \<Rightarrow> world \<Rightarrow> 'a \<times> world" where
  "stdout_interceptor message_builder block w =
     (let old_stdout = sys_stdout w;
          (r, w1) = block (w\<lparr>sys_stdout := OutputInterceptor old_stdout message_builder\<rparr>)
      in (r, w1\<lparr>sys_stdout := old_stdout\<rparr>))"

text \<open>\<^verbatim>\<open>a in b\<close> on strings.\<close>

fun str_contains :: "string \<Rightarrow> string \<Rightarrow> bool" where
  "str_contains a [] = (a = [])"
| "str_contains a (c # b) = (take (length a) (c # b) = a \<or> str_contains a b)"

text \<open>The \<^verbatim>\<open>while\<close> loop of \<^verbatim>\<open>filter_processor_traceback\<close>; the last argument is \<^verbatim>\<open>filtered_tb\<close>.\<close>

fun collect_tb :: "string \<Rightarrow> frame list \<Rightarrow> frame list list \<Rightarrow> frame list list" where
  "collect_tb file [] filtered_tb = filtered_tb"
| "collect_tb file (f # tb_next) filtered_tb =
     collect_tb file tb_next
       (if str_contains file (co_filename f) then filtered_tb @ [f # tb_next] else filtered_tb)"

definition filter_processor_traceback :: "pylib \<Rightarrow> DataProcessor \<Rightarrow> pyexc \<Rightarrow> string" where
  "filter_processor_traceback lib proc exc =
     (case collect_tb (filename proc) (exc_tb exc) [] of
        tb # rest \<Rightarrow> concat (format_list lib tb)
      | [] \<Rightarrow> ''No relevant stack trace found from the processor script.'')"

text \<open>How the block under \<^verbatim>\<open>with\<close> in \<^verbatim>\<open>start_listening\<close> ends.\<close>

datatype block_exit = Completed pyval | Continue | Raise pyexc

definition call_from :: "pylib \<Rightarrow> nat \<Rightarrow> (world \<Rightarrow> call_outcome \<times> world) \<Rightarrow> world \<Rightarrow> block_exit \<times> world" where
  "call_from lib line func w =
     (case execute_with_timeout lib func w of
        (Inl e, w1) \<Rightarrow> (Raise (passing (host_frame lib line ''start_listening'') e), w1)
      | (Inr v, w1) \<Rightarrow> (Completed v, w1))"

definition dispatch :: "pylib \<Rightarrow> json \<Rightarrow> json \<Rightarrow> call_env \<Rightarrow> world \<Rightarrow> block_exit \<times> world" where
  "dispatch lib event_type event_data env w =
     (if event_type = JStr ''OnCreate''
      then call_from lib 132 (execute_on_create lib event_data env) w
      else if event_type = JStr ''OnReceive''
      then call_from lib 134 (execute_on_receive lib event_data env) w
      else if event_type = JStr ''OnDestroy''
      then call_from lib 136 (execute_on_destroy lib env) w
      else (Continue,
            print_error event_type (''Unknown event type: '' @ py_str lib (of_json event_type)) w))"

definition default_result :: pyval where
  "default_result = PDict [(PStr ''status'', PStr ''default''),
                           (PStr ''message'', PStr ''No result generated'')]"

text \<open>Lines 129 to 163: one decoded event, from the \<^verbatim>\<open>try\<close> to the response.\<close>

definition handle_event :: "pylib \<Rightarrow> json \<Rightarrow> json \<Rightarrow> call_env \<Rightarrow> world \<Rightarrow> world" where
  "handle_event lib event_type event_data env w =
     (case stdout_interceptor get_standard_output_message
             (dispatch lib event_type event_data env) w of
        (Raise e, w1) \<Rightarrow>
          (if exc_is_timeout e
           then print_error event_type ''Error: Function timed out'' w1
           else print_error event_type
                  (''Error: '' @ exc_msg e @ ''\<newline>Processor traceback:\<newline>''
                     @ filter_processor_traceback lib (processor w1) e) w1)
      | (Continue, w1) \<Rightarrow> w1
      | (Completed v, w1) \<Rightarrow>
          (let result = (if v = PNone then default_result else v)
           in (case (if is_dict result then py_dumps result else None) of
                 Some output \<Rightarrow> print_output event_type ''ok'' output w1
               | None \<Rightarrow>
                   print_error event_type
                     (''Invalid result format. Expecting a dictionary, got ''
                        @ type_name result @ '': '' @ py_str lib result) w1)))"

text \<open>\<^verbatim>\<open>dict.get\<close> with its default \<^verbatim>\<open>None\<close>.\<close>

definition dict_get :: "(string \<times> json) list \<Rightarrow> string \<Rightarrow> json" where
  "dict_get d k = (case map_of d k of None \<Rightarrow> JNull | Some v \<Rightarrow> v)"

text \<open>
  One turn of the loop of \<^verbatim>\<open>start_listening\<close>. The first component is the exception
  that leaves the loop, if any.
\<close>

definition process_line :: "pylib \<Rightarrow> string \<Rightarrow> call_env \<Rightarrow> world \<Rightarrow> pyexc option \<times> world" where
  "process_line lib line env w =
     (case json_loads lib (py_strip line) of
        None \<Rightarrow>
          (Some (ValueError (''Invalid input format: '' @ line)
                   [host_frame lib 124 ''start_listening'']), w)
      | Some event \<Rightarrow>
          (case event of
             JDict d \<Rightarrow> (None, handle_event lib (dict_get d ''Event'') (dict_get d ''Data'') env w)
           | _ \<Rightarrow>
               (Some (AttributeError
                        ([squote] @ type_name (of_json event) @ [squote]
                           @ '' object has no attribute '' @ [squote] @ ''get'' @ [squote])
                        [host_frame lib 126 ''start_listening'']), w)))"

text \<open>
  \<^verbatim>\<open>start_listening\<close> over the lines of the input, each with the surroundings the
  host meets while it processes that line. The loop ends at the end of the input or
  with the first exception that leaves it.
\<close>

fun start_listening :: "pylib \<Rightarrow> (string \<times> call_env) list \<Rightarrow> world \<Rightarrow> pyexc option \<times> world" where
  "start_listening lib [] w = (None, w)"
| "start_listening lib ((line, env) # rest) w =
     (case process_line lib line env w of
        (Some e, w1) \<Rightarrow> (Some e, w1)
      | (None, w1) \<Rightarrow> start_listening lib rest w1)"


section \<open>Notions used in the statements\<close>

text \<open>
  The three branches of the \<^verbatim>\<open>if\<close> chain on lines 131 to 136: the event name, the
  method that \<^verbatim>\<open>execute_with_timeout\<close> runs for it, and the line of the call.
\<close>

definition lifecycle_calls ::
  "pylib \<Rightarrow> json \<Rightarrow> call_env \<Rightarrow> (json \<times> (world \<Rightarrow> call_outcome \<times> world) \<times> nat) set" where
  "lifecycle_calls lib event_data env =
     {(JStr ''OnCreate'', execute_on_create lib event_data env, 132),
      (JStr ''OnReceive'', execute_on_receive lib event_data env, 134),
      (JStr ''OnDestroy'', execute_on_destroy lib env, 136)}"

text \<open>
  An exception of the worker thread as the \<^verbatim>\<open>except\<close> clauses of
  \<^verbatim>\<open>start_listening\<close> receive it: the frames of \<^verbatim>\<open>target\<close>, of
  \<^verbatim>\<open>execute_with_timeout\<close> and of \<^verbatim>\<open>start_listening\<close> have been put in front of
  its traceback.
\<close>

definition seen_by_dispatcher :: "pylib \<Rightarrow> nat \<Rightarrow> pyexc \<Rightarrow> pyexc" where
  "seen_by_dispatcher lib ln x =
     x\<lparr>exc_tb := host_frame lib ln ''start_listening'' # host_frame lib 81 ''execute_with_timeout''
                    # host_frame lib 70 ''target'' # exc_tb x\<rparr>"

section \<open>Example inputs\<close>

text \<open>
  The inputs at which the theorems below are evaluated. \<open>plain_format\<close> prints the
  location line of each traceback entry in the layout of \<^verbatim>\<open>traceback.format_list\<close>,
  without the source text. \<open>example_lib\<close> decodes the request lines used below as
  \<^verbatim>\<open>json.loads\<close> does and rejects every other text; its \<open>py_repr\<close> stands in for
  \<^verbatim>\<open>repr\<close>. \<open>example_world\<close> is the process before the first line is read, with the
  processor that \<^verbatim>\<open>main\<close> builds. \<open>example_env run\<close> are surroundings in which the
  handler file exists, loads without output into a module that has \<^verbatim>\<open>on_create\<close> and
  \<^verbatim>\<open>on_receive\<close> but no \<^verbatim>\<open>on_destroy\<close>, and every entry point behaves as \<open>run\<close>.
\<close>

definition plain_format :: "frame list \<Rightarrow> string list" where
  "plain_format tb =
     map (\<lambda>f. ''  File '' @ [dquote] @ co_filename f @ [dquote] @ '', line ''
                 @ show_nat (tb_lineno f) @ '', in '' @ co_name f @ ''\<newline>'') tb"

definition example_lib :: pylib where
  \<open>example_lib =
     \<lparr>json_loads = map_of
        [(''{"Event": "OnFoo", "Data": {}}'',
            JDict [(''Event'', JStr ''OnFoo''), (''Data'', JDict [])]),
         (''{"Event": "OnCreate", "Data": {"foo": "20"}}'',
            JDict [(''Event'', JStr ''OnCreate''), (''Data'', JDict [(''foo'', JStr ''20'')])]),
         (''{"Event": "OnReceive", "Data": {"bar": "10"}}'',
            JDict [(''Event'', JStr ''OnReceive''), (''Data'', JDict [(''bar'', JStr ''10'')])]),
         (''{"Event": "OnDestroy"}'', JDict [(''Event'', JStr ''OnDestroy'')]),
         (''[]'', JList []),
         (''null'', JNull)],
      py_repr = (\<lambda>v. ''<'' @ type_name v @ ''>''),
      format_list = plain_format,
      host_file = ''/srv/host/test.py''\<rparr>\<close>

definition example_world :: world where
  "example_world =
     \<lparr>processor = DataProcessor_init ''another_main.py'' 60,
      sys_stdout = Original_stdout,
      real_stdout = \<lparr>pending = [], delivered = []\<rparr>,
      sys_stderr = \<lparr>pending = [], delivered = []\<rparr>,
      exec_count = 0\<rparr>"

definition example_module :: pymodule where
  "example_module = \<lparr>mod_id = 1, mod_attrs = [''on_create'', ''on_receive'']\<rparr>"

definition example_env :: "handler_run \<Rightarrow> call_env" where
  "example_env run =
     \<lparr>env_isfile = True,
      env_load = Spec_ok example_module \<lparr>run_writes = [], run_outcome = Returned PNone\<rparr>,
      env_call = (\<lambda>name args. run)\<rparr>"



text \<open>
  The requests \<open>example_requests\<close> are the two lines of the end-to-end example: a
  create event whose handler returns a mapping without printing, and a receive event
  whose handler prints one line and returns a mapping.
\<close>

text \<open>
  \<open>example_exc\<close> is a division by zero raised in a helper file that the handler
  calls; its traceback starts in the handler file. \<open>intercepting w\<close> is \<open>w\<close>
  inside the \<^verbatim>\<open>with\<close> block of the loop, when \<^verbatim>\<open>sys.stdout\<close> is the interceptor.
\<close>

definition example_exc :: pyexc where
  "example_exc =
     \<lparr>exc_class = ''ZeroDivisionError'', exc_is_timeout = False,
      exc_msg = ''division by zero'',
      exc_tb = [\<lparr>co_filename = ''/srv/handlers/another_main.py'', tb_lineno = 44,
                  co_name = ''on_receive''\<rparr>,
                \<lparr>co_filename = ''/srv/handlers/calculator/helper.py'', tb_lineno = 9,
                  co_name = ''divide''\<rparr>]\<rparr>"

definition intercepting :: "world \<Rightarrow> world" where
  "intercepting w = w\<lparr>sys_stdout := OutputInterceptor Original_stdout get_standard_output_message\<rparr>"

section \<open>One load at most: the relation between two states of the process\<close>


section \<open>Decoding an input line\<close>


lemma process_line_object:
  assumes "json_loads lib (py_strip line) = Some (JDict d)"
  shows "process_line lib line env w =
     (None, handle_event lib (dict_get d ''Event'') (dict_get d ''Data'') env w)"
  using assms by (simp add: process_line_def)

lemma process_line_non_object:
  assumes "json_loads lib (py_strip line) = Some v" and "\<forall>d. v \<noteq> JDict d"
  shows "process_line lib line env w =
     (Some (AttributeError
              ([squote] @ type_name (of_json v) @ [squote] @ '' object has no attribute ''
                 @ [squote] @ ''get'' @ [squote])
              [host_frame lib 126 ''start_listening'']), w)"
  using assms by (cases v) (simp_all add: process_line_def)


text \<open>
  Claim C10. A line that decodes to a JSON value other than an object (an array, a
  number, a string, a boolean or \<^verbatim>\<open>null\<close>) does not take the branch that raises
  \<^verbatim>\<open>ValueError("Invalid input format: ...")\<close>: the attribute lookup \<^verbatim>\<open>event.get\<close> on
  line 126 raises \<^verbatim>\<open>AttributeError\<close>, which nothing catches, so the loop ends with that
  exception and the process state is as it was: no response and no diagnostic has been
  written. The loop body ends with a \<^verbatim>\<open>ValueError\<close> exactly when the decoder rejects
  the stripped line.
\<close>

theorem non_object_line_halts_with_attribute_error:
  assumes "json_loads lib (py_strip line) = Some v" and "\<forall>d. v \<noteq> JDict d"
  shows "start_listening lib ((line, env) # rest) w =
           (Some (AttributeError
                    ([squote] @ type_name (of_json v) @ [squote] @ '' object has no attribute ''
                       @ [squote] @ ''get'' @ [squote])
                    [host_frame lib 126 ''start_listening'']), w)
         \<and> ((\<exists>e. fst (process_line lib line2 env2 w2) = Some e \<and> exc_class e = ''ValueError'')
              = (json_loads lib (py_strip line2) = None))"
proof -
  have "(\<exists>e. fst (process_line lib line2 env2 w2) = Some e \<and> exc_class e = ''ValueError'')
              = (json_loads lib (py_strip line2) = None)"
    by (auto simp: process_line_def AttributeError_def ValueError_def split: option.splits json.splits)
  then show ?thesis
    by (simp add: process_line_non_object[OF assms])
qed

theorem non_object_line_halts_with_attribute_error_witness:
  "json_loads example_lib (py_strip ''[]\<newline>'') = Some (JList [])
   \<and> start_listening example_lib [(''[]\<newline>'', example_env \<lparr>run_writes = [], run_outcome = Hung\<rparr>)] example_world
       = (Some (AttributeError ([squote] @ ''list'' @ [squote] @ '' object has no attribute '' @ [squote] @ ''get'' @ [squote])
              [host_frame example_lib 126 ''start_listening'']), example_world)"
proof -
  have h: "json_loads example_lib (py_strip ''[]\<newline>'') = Some (JList [])"
    by code_simp
  have n: "\<forall>d. JList [] \<noteq> JDict d" by simp
  show ?thesis
    using h non_object_line_halts_with_attribute_error [OF h n, of "example_env \<lparr>run_writes = [], run_outcome = Hung\<rparr>" "[]" example_world]
    by simp
qed






section \<open>The state outside the output stream\<close>

lemma stdout_write_frame [simp]:
  "processor (stdout_write s w) = processor w"
  "exec_count (stdout_write s w) = exec_count w"
  "sys_stdout (stdout_write s w) = sys_stdout w"
  "sys_stderr (stdout_write s w) = sys_stderr w"
  by (simp_all add: stdout_write_def)

lemma emit_frame [simp]:
  "processor (emit ws w) = processor w"
  "exec_count (emit ws w) = exec_count w"
  "sys_stdout (emit ws w) = sys_stdout w"
  "sys_stderr (emit ws w) = sys_stderr w"
  unfolding emit_def by (induction ws arbitrary: w rule: rev_induct) simp_all

lemma print_output_frame [simp]:
  "processor (print_output ev st msg w) = processor w"
  "exec_count (print_output ev st msg w) = exec_count w"
  "sys_stdout (print_output ev st msg w) = sys_stdout w"
  "sys_stderr (print_output ev st msg w) = sys_stderr w"
  by (simp_all add: print_output_def py_print_def stdout_flush_def)

lemma print_error_frame [simp]:
  "processor (print_error ev msg w) = processor w"
  "exec_count (print_error ev msg w) = exec_count w"
  "sys_stdout (print_error ev msg w) = sys_stdout w"
  by (simp_all add: print_error_def print_stderr_def Let_def)






section \<open>The handler unit is loaded once\<close>



















section \<open>Printing\<close>

lemma py_strip_newline: "py_strip ''\<newline>'' = []"
  by (simp add: py_strip_def is_space_def)

lemma py_strip_framed:
  assumes "\<not> is_space a" and "\<not> is_space b"
  shows "py_strip (a # t @ [b]) = a # t @ [b]"
  using assms by (simp add: py_strip_def)

lemma dumps_dict_framed: "dumps (JDict kvs) = CHR ''{'' # join '', '' (dumps_pairs kvs) @ ''}''"
  by simp

lemma py_strip_dumps_dict: "py_strip (dumps (JDict kvs)) = dumps (JDict kvs)"
  unfolding dumps_dict_framed by (rule py_strip_framed) (simp_all add: is_space_def)

lemma dumps_dict_nonempty: "dumps (JDict kvs) \<noteq> []"
  by simp

lemma interceptor_write_blank:
  "py_strip s = [] \<Longrightarrow> sink_write (OutputInterceptor orig mb) s out = out"
  by simp


lemma print_output_original:
  assumes "sys_stdout w = Original_stdout"
  shows "print_output event status message w =
     w\<lparr>real_stdout := \<lparr>pending = [],
         delivered = delivered (real_stdout w) @ pending (real_stdout w)
           @ dumps (JDict [(''Event'', event), (''Status'', JStr status), (''Data'', JStr message)])
           @ ''\<newline>''\<rparr>\<rparr>"
  using assms
  by (simp add: print_output_def py_print_def stdout_flush_def stdout_write_def
      stream_write_def stream_flush_def)

lemma print_output_intercepted:
  assumes "sys_stdout w = OutputInterceptor Original_stdout mb"
  shows "print_output event status message w =
     w\<lparr>real_stdout := \<lparr>pending = [],
         delivered = delivered (real_stdout w) @ pending (real_stdout w)
           @ mb (dumps (JDict [(''Event'', event), (''Status'', JStr status),
                               (''Data'', JStr message)]))\<rparr>\<rparr>"
  using assms
  by (simp add: print_output_def py_print_def stdout_flush_def stdout_write_def
      stream_write_def stream_flush_def py_strip_dumps_dict py_strip_newline dumps_dict_nonempty
      del: dumps.simps)

lemma print_error_stderr:
  "sys_stderr (print_error event message w) =
     \<lparr>pending = [],
      delivered = delivered (sys_stderr w) @ pending (sys_stderr w) @ message @ ''\<newline>\<newline>''\<rparr>"
  by (simp add: print_error_def print_stderr_def Let_def stream_write_def stream_flush_def)

lemma print_error_original:
  assumes "sys_stdout w = Original_stdout"
  shows "real_stdout (print_error event message w) =
     \<lparr>pending = [],
      delivered = delivered (real_stdout w) @ pending (real_stdout w)
        @ dumps (JDict [(''Event'', event), (''Status'', JStr ''error''),
             (''Data'', JStr (dumps (JDict [(''status'', JStr ''error''),
                                            (''message'', JStr ''see error log for details'')])))])
        @ ''\<newline>''\<rparr>"
  using assms
  by (simp add: print_error_def Let_def print_stderr_def print_output_original del: dumps.simps)

lemma print_error_intercepted:
  assumes "sys_stdout w = OutputInterceptor Original_stdout mb"
  shows "real_stdout (print_error event message w) =
     \<lparr>pending = [],
      delivered = delivered (real_stdout w) @ pending (real_stdout w)
        @ mb (dumps (JDict [(''Event'', event), (''Status'', JStr ''error''),
             (''Data'', JStr (dumps (JDict [(''status'', JStr ''error''),
                                            (''message'', JStr ''see error log for details'')])))]))\<rparr>"
  using assms
  by (simp add: print_error_def Let_def print_stderr_def print_output_intercepted del: dumps.simps)

lemma dispatch_lifecycle:
  assumes "(event_type, func, ln) \<in> lifecycle_calls lib event_data env"
  shows "dispatch lib event_type event_data env w = call_from lib ln func w"
  using assms by (auto simp: lifecycle_calls_def dispatch_def)

lemma call_from_outcome:
  assumes "func w = (out, w1)"
  shows "call_from lib ln func w =
     (case out of
        Returned v \<Rightarrow> (Completed v, w1)
      | Raised x \<Rightarrow> (Raise (seen_by_dispatcher lib ln x), w1)
      | Hung \<Rightarrow>
          (Raise (TimeoutError
                    (''Execution timed out after '' @ show_nat (timeout (processor w1)) @ '' seconds'')
                    [host_frame lib ln ''start_listening'', host_frame lib 79 ''execute_with_timeout'']), w1))"
  using assms
  by (cases out)
     (simp_all add: call_from_def execute_with_timeout_def seen_by_dispatcher_def passing_def
        TimeoutError_def)


lemma handle_event_lifecycle:
  assumes "(event_type, func, ln) \<in> lifecycle_calls lib event_data env"
    and "func (w\<lparr>sys_stdout := OutputInterceptor (sys_stdout w) get_standard_output_message\<rparr>) = (out, w1)"
  shows "handle_event lib event_type event_data env w =
     (case out of
        Hung \<Rightarrow> print_error event_type ''Error: Function timed out'' (w1\<lparr>sys_stdout := sys_stdout w\<rparr>)
      | Raised x \<Rightarrow>
          (if exc_is_timeout x
           then print_error event_type ''Error: Function timed out'' (w1\<lparr>sys_stdout := sys_stdout w\<rparr>)
           else print_error event_type
                  (''Error: '' @ exc_msg x @ ''\<newline>Processor traceback:\<newline>''
                     @ filter_processor_traceback lib (processor w1) (seen_by_dispatcher lib ln x))
                  (w1\<lparr>sys_stdout := sys_stdout w\<rparr>))
      | Returned v \<Rightarrow>
          (if v = PNone
           then print_output event_type ''ok''
                  (dumps (JDict [(''status'', JStr ''default''),
                                 (''message'', JStr ''No result generated'')]))
                  (w1\<lparr>sys_stdout := sys_stdout w\<rparr>)
           else (case (if is_dict v then py_dumps v else None) of
                   Some output \<Rightarrow> print_output event_type ''ok'' output (w1\<lparr>sys_stdout := sys_stdout w\<rparr>)
                 | None \<Rightarrow>
                     print_error event_type
                       (''Invalid result format. Expecting a dictionary, got ''
                          @ type_name v @ '': '' @ py_str lib v)
                       (w1\<lparr>sys_stdout := sys_stdout w\<rparr>))))"
proof -
  have d: "py_dumps default_result
             = Some (dumps (JDict [(''status'', JStr ''default''),
                                   (''message'', JStr ''No result generated'')]))"
    by (simp add: py_dumps_def default_result_def del: dumps.simps)
  have i: "is_dict default_result"
    by (simp add: default_result_def)
  show ?thesis
    by (cases out)
       (simp_all add: handle_event_def stdout_interceptor_def dispatch_lifecycle[OF assms(1)]
          call_from_outcome[of func _ out w1, OF assms(2)] Let_def d i TimeoutError_def seen_by_dispatcher_def
          del: dumps.simps)
qed

lemma handle_event_unknown:
  assumes "event_type \<noteq> JStr ''OnCreate''" and "event_type \<noteq> JStr ''OnReceive''"
    and "event_type \<noteq> JStr ''OnDestroy''"
  shows "handle_event lib event_type event_data env w =
     (print_error event_type (''Unknown event type: '' @ py_str lib (of_json event_type))
        (w\<lparr>sys_stdout := OutputInterceptor (sys_stdout w) get_standard_output_message\<rparr>))
     \<lparr>sys_stdout := sys_stdout w\<rparr>"
  using assms by (simp add: handle_event_def stdout_interceptor_def dispatch_def Let_def)






section \<open>Responses\<close>




lemma error_payload_text:
  \<open>dumps (JDict [(''status'', JStr ''error''), (''message'', JStr ''see error log for details'')])
     = ''{"status": "error", "message": "see error log for details"}''\<close>
  by code_simp















text \<open>
  Claim C9. An event whose name is none of the three lifecycle names is answered inside
  the \<^verbatim>\<open>with\<close> block, so \<^verbatim>\<open>print_error\<close> writes to the interceptor: the output
  stream receives one line \<^verbatim>\<open>{"Event": "StandardOutput", "Status": "ok", "Data": s}\<close>
  where \<open>s\<close> is the text of the error response of the event. When the call of a
  lifecycle event times out or raises, the error response is printed after the block,
  when \<^verbatim>\<open>sys.stdout\<close> is the real stream again, and the output stream receives it as a
  line of its own.
\<close>

theorem unknown_event_response_is_captured:
  assumes "sys_stdout w = Original_stdout"
  shows "(event_type \<noteq> JStr ''OnCreate'' \<and> event_type \<noteq> JStr ''OnReceive''
          \<and> event_type \<noteq> JStr ''OnDestroy'' \<longrightarrow>
           real_stdout (handle_event lib event_type event_data env w)
             = \<lparr>pending = [],
                delivered = delivered (real_stdout w) @ pending (real_stdout w)
                  @ dumps (JDict [(''Event'', JStr ''StandardOutput''), (''Status'', JStr ''ok''),
                       (''Data'', JStr (dumps (JDict [(''Event'', event_type),
                          (''Status'', JStr ''error''),
                          (''Data'', JStr (dumps (JDict [(''status'', JStr ''error''),
                             (''message'', JStr ''see error log for details'')])))])))])
                  @ ''\<newline>''\<rparr>)
     \<and> (\<forall>func ln out w1 x.
           (event_type, func, ln) \<in> lifecycle_calls lib event_data env
           \<and> func (w\<lparr>sys_stdout := OutputInterceptor Original_stdout get_standard_output_message\<rparr>)
               = (out, w1)
           \<and> (out = Hung \<or> out = Raised x) \<longrightarrow>
           real_stdout (handle_event lib event_type event_data env w)
             = \<lparr>pending = [],
                delivered = delivered (real_stdout w1) @ pending (real_stdout w1)
                  @ dumps (JDict [(''Event'', event_type), (''Status'', JStr ''error''),
                       (''Data'', JStr (dumps (JDict [(''status'', JStr ''error''),
                                                      (''message'', JStr ''see error log for details'')])))])
                  @ ''\<newline>''\<rparr>)"
proof -
  have a: "event_type \<noteq> JStr ''OnCreate'' \<and> event_type \<noteq> JStr ''OnReceive''
          \<and> event_type \<noteq> JStr ''OnDestroy'' \<longrightarrow>
           real_stdout (handle_event lib event_type event_data env w)
             = \<lparr>pending = [],
                delivered = delivered (real_stdout w) @ pending (real_stdout w)
                  @ dumps (JDict [(''Event'', JStr ''StandardOutput''), (''Status'', JStr ''ok''),
                       (''Data'', JStr (dumps (JDict [(''Event'', event_type),
                          (''Status'', JStr ''error''),
                          (''Data'', JStr (dumps (JDict [(''status'', JStr ''error''),
                             (''message'', JStr ''see error log for details'')])))])))])
                  @ ''\<newline>''\<rparr>"
    using assms
    by (simp add: handle_event_unknown print_error_intercepted get_standard_output_message_def
          del: dumps.simps)
  have b: "real_stdout (handle_event lib event_type event_data env w)
             = \<lparr>pending = [],
                delivered = delivered (real_stdout w1) @ pending (real_stdout w1)
                  @ dumps (JDict [(''Event'', event_type), (''Status'', JStr ''error''),
                       (''Data'', JStr (dumps (JDict [(''status'', JStr ''error''),
                                                      (''message'', JStr ''see error log for details'')])))])
                  @ ''\<newline>''\<rparr>"
    if m: "(event_type, func, ln) \<in> lifecycle_calls lib event_data env"
      and f0: "func (w\<lparr>sys_stdout := OutputInterceptor Original_stdout get_standard_output_message\<rparr>)
               = (out, w1)"
      and o: "out = Hung \<or> out = Raised x"
    for func ln out w1 x
  proof -
    have f: "func (w\<lparr>sys_stdout := OutputInterceptor (sys_stdout w) get_standard_output_message\<rparr>)
               = (out, w1)"
      using assms f0 by simp
    have s: "sys_stdout (w1\<lparr>sys_stdout := sys_stdout w\<rparr>) = Original_stdout"
      using assms by simp
    show ?thesis
      using o
      by (auto simp add: handle_event_lifecycle[OF m f] print_error_original[OF s]
            simp del: dumps.simps)
  qed
  from a b show ?thesis by blast
qed


theorem unknown_event_response_is_captured_witness:
  \<open>sys_stdout example_world = Original_stdout
   \<and> real_stdout (handle_event example_lib (JStr ''OnFoo'') (JDict [])
          (example_env \<lparr>run_writes = [], run_outcome = Returned PNone\<rparr>) example_world)
       = \<lparr>pending = [],
          delivered =
            dumps (JDict [(''Event'', JStr ''StandardOutput''), (''Status'', JStr ''ok''),
               (''Data'', JStr (dumps (JDict [(''Event'', JStr ''OnFoo''),
                  (''Status'', JStr ''error''),
                  (''Data'', JStr ''{"status": "error", "message": "see error log for details"}'')])))])
            @ ''\<newline>''\<rparr>
   \<and> fst (execute_on_create example_lib (JDict [(''foo'', JStr ''20'')])
          (example_env \<lparr>run_writes = [''busy''], run_outcome = Hung\<rparr>)
          (intercepting example_world)) = Hung
   \<and> real_stdout (handle_event example_lib (JStr ''OnCreate'') (JDict [(''foo'', JStr ''20'')])
          (example_env \<lparr>run_writes = [''busy''], run_outcome = Hung\<rparr>) example_world)
       = \<lparr>pending = [],
          delivered = ''{"Event": "StandardOutput", "Status": "ok", "Data": "busy"}\<newline>''
            @ dumps (JDict [(''Event'', JStr ''OnCreate''), (''Status'', JStr ''error''),
                 (''Data'', JStr ''{"status": "error", "message": "see error log for details"}'')])
            @ ''\<newline>''\<rparr>\<close>
proof -
  let ?d = "JDict [(''foo'', JStr ''20'')]"
  let ?e1 = "example_env \<lparr>run_writes = [], run_outcome = Returned PNone\<rparr>"
  let ?e2 = "example_env \<lparr>run_writes = [''busy''], run_outcome = Hung\<rparr>"
  let ?w = "example_world\<lparr>sys_stdout := OutputInterceptor Original_stdout get_standard_output_message\<rparr>"
  have i: "intercepting example_world = ?w"
    by (simp add: intercepting_def)
  have s: "sys_stdout example_world = Original_stdout"
    by (simp add: example_world_def)
  have r: "real_stdout example_world = \<lparr>pending = [], delivered = []\<rparr>"
    by (simp add: example_world_def)
  have m: "(JStr ''OnCreate'', execute_on_create example_lib ?d ?e2, 132)
              \<in> lifecycle_calls example_lib ?d ?e2"
    by (simp add: lifecycle_calls_def)
  have h: "fst (execute_on_create example_lib ?d ?e2 (intercepting example_world)) = Hung"
    by code_simp
  have o: \<open>real_stdout (snd (execute_on_create example_lib ?d ?e2 (intercepting example_world)))
              = \<lparr>pending = [],
                 delivered = ''{"Event": "StandardOutput", "Status": "ok", "Data": "busy"}\<newline>''\<rparr>\<close>
    by code_simp
  have f: "execute_on_create example_lib ?d ?e2 ?w
              = (Hung, snd (execute_on_create example_lib ?d ?e2 ?w))"
    using h unfolding i by (simp add: prod_eq_iff)
  note t1 = unknown_event_response_is_captured [OF s, of "JStr ''OnFoo''" example_lib "JDict []" ?e1]
  note t2 = unknown_event_response_is_captured [OF s, of "JStr ''OnCreate''" example_lib ?d ?e2]
  have u: "real_stdout (handle_event example_lib (JStr ''OnCreate'') ?d ?e2 example_world)
       = \<lparr>pending = [],
          delivered = delivered (real_stdout (snd (execute_on_create example_lib ?d ?e2 ?w)))
            @ pending (real_stdout (snd (execute_on_create example_lib ?d ?e2 ?w)))
            @ dumps (JDict [(''Event'', JStr ''OnCreate''), (''Status'', JStr ''error''),
                 (''Data'', JStr (dumps (JDict [(''status'', JStr ''error''),
                                                (''message'', JStr ''see error log for details'')])))])
            @ ''\<newline>''\<rparr>"
    using t2 m f by blast
  show ?thesis
    using s r h o t1 u unfolding i error_payload_text by (simp del: dumps.simps)
qed


text \<open>
  Claim C6, evaluated at the request \<^verbatim>\<open>{"Event": "OnFoo", "Data": {}}\<close>. The loop goes
  on, no entry point is called (the processor is unchanged) and the diagnostic stream
  receives \<^verbatim>\<open>Unknown event type: OnFoo\<close>; but the one line on the output stream is a
  \<^verbatim>\<open>StandardOutput\<close> event with status \<^verbatim>\<open>ok\<close> that carries the error response as its
  text, not the error response of the event \<^verbatim>\<open>OnFoo\<close>.
\<close>

theorem unknown_event_gets_no_error_response:
  \<open>fst (process_line example_lib ''{"Event": "OnFoo", "Data": {}}\<newline>''
          (example_env \<lparr>run_writes = [], run_outcome = Returned PNone\<rparr>) example_world) = None
   \<and> delivered (real_stdout (snd (process_line example_lib ''{"Event": "OnFoo", "Data": {}}\<newline>''
          (example_env \<lparr>run_writes = [], run_outcome = Returned PNone\<rparr>) example_world)))
       = dumps (JDict [(''Event'', JStr ''StandardOutput''), (''Status'', JStr ''ok''),
            (''Data'', JStr (dumps (JDict [(''Event'', JStr ''OnFoo''), (''Status'', JStr ''error''),
               (''Data'', JStr ''{"status": "error", "message": "see error log for details"}'')])))])
         @ ''\<newline>''
   \<and> take 46 (delivered (real_stdout (snd (process_line example_lib
          ''{"Event": "OnFoo", "Data": {}}\<newline>''
          (example_env \<lparr>run_writes = [], run_outcome = Returned PNone\<rparr>) example_world))))
       = ''{"Event": "StandardOutput", "Status": "ok", "D''
   \<and> delivered (real_stdout (snd (process_line example_lib ''{"Event": "OnFoo", "Data": {}}\<newline>''
          (example_env \<lparr>run_writes = [], run_outcome = Returned PNone\<rparr>) example_world)))
       \<noteq> dumps (JDict [(''Event'', JStr ''OnFoo''), (''Status'', JStr ''error''),
               (''Data'', JStr ''{"status": "error", "message": "see error log for details"}'')])
         @ ''\<newline>''
   \<and> delivered (sys_stderr (snd (process_line example_lib ''{"Event": "OnFoo", "Data": {}}\<newline>''
          (example_env \<lparr>run_writes = [], run_outcome = Returned PNone\<rparr>) example_world)))
       = ''Unknown event type: OnFoo\<newline>\<newline>''
   \<and> processor (snd (process_line example_lib ''{"Event": "OnFoo", "Data": {}}\<newline>''
          (example_env \<lparr>run_writes = [], run_outcome = Returned PNone\<rparr>) example_world))
       = processor example_world\<close>
proof -
  let ?e = "example_env \<lparr>run_writes = [], run_outcome = Returned PNone\<rparr>"
  let ?wrapped = \<open>dumps (JDict [(''Event'', JStr ''StandardOutput''), (''Status'', JStr ''ok''),
            (''Data'', JStr (dumps (JDict [(''Event'', JStr ''OnFoo''), (''Status'', JStr ''error''),
               (''Data'', JStr ''{"status": "error", "message": "see error log for details"}'')])))])
         @ ''\<newline>''\<close>
  have k: \<open>json_loads example_lib (py_strip ''{"Event": "OnFoo", "Data": {}}\<newline>'')
            = Some (JDict [(''Event'', JStr ''OnFoo''), (''Data'', JDict [])])\<close>
    by code_simp
  have g: "dict_get [(''Event'', JStr ''OnFoo''), (''Data'', JDict [])] ''Event'' = JStr ''OnFoo''"
          "dict_get [(''Event'', JStr ''OnFoo''), (''Data'', JDict [])] ''Data'' = JDict []"
    by (simp_all add: dict_get_def)
  have q: \<open>process_line example_lib ''{"Event": "OnFoo", "Data": {}}\<newline>'' ?e example_world
             = (None, handle_event example_lib (JStr ''OnFoo'') (JDict []) ?e example_world)\<close>
    by (simp add: process_line_object[OF k] g)
  have u: "handle_event example_lib (JStr ''OnFoo'') (JDict []) ?e example_world
      = (print_error (JStr ''OnFoo'') (''Unknown event type: '' @ py_str example_lib (of_json (JStr ''OnFoo'')))
           (example_world\<lparr>sys_stdout := OutputInterceptor (sys_stdout example_world) get_standard_output_message\<rparr>))
        \<lparr>sys_stdout := sys_stdout example_world\<rparr>"
    by (rule handle_event_unknown) simp_all
  have s: "sys_stdout (example_world\<lparr>sys_stdout := OutputInterceptor (sys_stdout example_world) get_standard_output_message\<rparr>)
             = OutputInterceptor Original_stdout get_standard_output_message"
    by (simp add: example_world_def)
  have r: "real_stdout example_world = \<lparr>pending = [], delivered = []\<rparr>"
          "sys_stderr example_world = \<lparr>pending = [], delivered = []\<rparr>"
    by (simp_all add: example_world_def)
  have out: "delivered (real_stdout (handle_event example_lib (JStr ''OnFoo'') (JDict []) ?e example_world))
               = ?wrapped"
    unfolding u
    by (simp add: print_error_intercepted[OF s] r get_standard_output_message_def error_payload_text
          del: dumps.simps)
  have err: "delivered (sys_stderr (handle_event example_lib (JStr ''OnFoo'') (JDict []) ?e example_world))
               = ''Unknown event type: OnFoo\<newline>\<newline>''"
    unfolding u by (simp add: print_error_stderr r py_str_def)
  have pr: "processor (handle_event example_lib (JStr ''OnFoo'') (JDict []) ?e example_world)
               = processor example_world"
    unfolding u by simp
  have t: \<open>take 46 ?wrapped = ''{"Event": "StandardOutput", "Status": "ok", "D''\<close>
    by code_simp
  have n: \<open>?wrapped \<noteq> dumps (JDict [(''Event'', JStr ''OnFoo''), (''Status'', JStr ''error''),
               (''Data'', JStr ''{"status": "error", "message": "see error log for details"}'')])
         @ ''\<newline>''\<close>
    by code_simp
  show ?thesis
    unfolding q using out err pr t n by (simp del: dumps.simps)
qed



section \<open>The traceback listing\<close>

text \<open>
  The listing is made from the first traceback entry whose file name contains the
  handler's file name and from every entry after it, whatever their files; without such
  an entry it is the fixed sentence.
\<close>

lemma collect_tb_acc: "collect_tb file tb acc = acc @ collect_tb file tb []"
proof (induction tb arbitrary: acc)
  case Nil
  show ?case by simp
next
  case (Cons f tb)
  show ?case
    using Cons.IH[of "acc @ [f # tb]"] Cons.IH[of "[f # tb]"] Cons.IH[of acc]
    by simp
qed

lemma collect_tb_first:
  "collect_tb file tb [] =
     (case dropWhile (\<lambda>f. \<not> str_contains file (co_filename f)) tb of
        [] \<Rightarrow> []
      | f # rest \<Rightarrow> (f # rest) # collect_tb file rest [])"
proof (induction tb)
  case Nil
  show ?case by simp
next
  case (Cons f tb)
  show ?case
    using Cons.IH collect_tb_acc[of "file" tb "[f # tb]"] by simp
qed

lemma filter_processor_traceback_keeps_tail:
  "filter_processor_traceback lib proc exc =
     (case dropWhile (\<lambda>f. \<not> str_contains (filename proc) (co_filename f)) (exc_tb exc) of
        [] \<Rightarrow> ''No relevant stack trace found from the processor script.''
      | f # rest \<Rightarrow> concat (format_list lib (f # rest)))"
  by (cases "dropWhile (\<lambda>f. \<not> str_contains (filename proc) (co_filename f)) (exc_tb exc)")
     (simp_all add: filter_processor_traceback_def collect_tb_first[of "filename proc" "exc_tb exc"]
        del: dropWhile_eq_Nil_conv)


text \<open>
  Claim C4, evaluated at a handler in \<^verbatim>\<open>another_main.py\<close> that fails inside a function
  of \<^verbatim>\<open>calculator/helper.py\<close>. The four host entries in front of the handler's entry
  are dropped, but the entry of \<^verbatim>\<open>helper.py\<close>, whose file name does not contain
  \<^verbatim>\<open>another_main.py\<close>, is part of the listing that goes to the diagnostic stream.
\<close>

theorem traceback_listing_keeps_frames_of_other_files:
  \<open>filename (processor example_world) = ''another_main.py''
   \<and> map co_filename (exc_tb (seen_by_dispatcher example_lib 134
          (passing (host_frame example_lib 49 ''execute_on_receive'') example_exc)))
       = [''/srv/host/test.py'', ''/srv/host/test.py'', ''/srv/host/test.py'', ''/srv/host/test.py'',
          ''/srv/handlers/another_main.py'', ''/srv/handlers/calculator/helper.py'']
   \<and> \<not> str_contains ''another_main.py'' ''/srv/handlers/calculator/helper.py''
   \<and> filter_processor_traceback example_lib (processor example_world)
         (seen_by_dispatcher example_lib 134
            (passing (host_frame example_lib 49 ''execute_on_receive'') example_exc))
       = ''  File "/srv/handlers/another_main.py", line 44, in on_receive\<newline>''
         @ ''  File "/srv/handlers/calculator/helper.py", line 9, in divide\<newline>''
   \<and> delivered (sys_stderr (snd (start_listening example_lib
          [(''{"Event": "OnReceive", "Data": {"bar": "10"}}\<newline>'',
            example_env \<lparr>run_writes = [], run_outcome = Raised example_exc\<rparr>)] example_world)))
       = ''Error: division by zero\<newline>Processor traceback:\<newline>''
         @ ''  File "/srv/handlers/another_main.py", line 44, in on_receive\<newline>''
         @ ''  File "/srv/handlers/calculator/helper.py", line 9, in divide\<newline>''
         @ ''\<newline>\<newline>''\<close>
proof -
  let ?b = "JDict [(''bar'', JStr ''10'')]"
  let ?e = "example_env \<lparr>run_writes = [], run_outcome = Raised example_exc\<rparr>"
  let ?x = "passing (host_frame example_lib 49 ''execute_on_receive'') example_exc"
  let ?w = "example_world\<lparr>sys_stdout := OutputInterceptor (sys_stdout example_world) get_standard_output_message\<rparr>"
  have i: "?w = intercepting example_world"
    by (simp add: intercepting_def example_world_def)
  have a: "filename (processor example_world) = ''another_main.py''"
    by (simp add: example_world_def DataProcessor_init_def)
  have b: "map co_filename (exc_tb (seen_by_dispatcher example_lib 134 ?x))
       = [''/srv/host/test.py'', ''/srv/host/test.py'', ''/srv/host/test.py'', ''/srv/host/test.py'',
          ''/srv/handlers/another_main.py'', ''/srv/handlers/calculator/helper.py'']"
    by code_simp
  have c: "\<not> str_contains ''another_main.py'' ''/srv/handlers/calculator/helper.py''"
    by code_simp
  have d: \<open>filter_processor_traceback example_lib (processor example_world)
         (seen_by_dispatcher example_lib 134 ?x)
       = ''  File "/srv/handlers/another_main.py", line 44, in on_receive\<newline>''
         @ ''  File "/srv/handlers/calculator/helper.py", line 9, in divide\<newline>''\<close>
    by code_simp
  have k: \<open>json_loads example_lib (py_strip ''{"Event": "OnReceive", "Data": {"bar": "10"}}\<newline>'')
            = Some (JDict [(''Event'', JStr ''OnReceive''), (''Data'', ?b)])\<close>
    by code_simp
  have g: "dict_get [(''Event'', JStr ''OnReceive''), (''Data'', ?b)] ''Event'' = JStr ''OnReceive''"
          "dict_get [(''Event'', JStr ''OnReceive''), (''Data'', ?b)] ''Data'' = ?b"
    by (simp_all add: dict_get_def)
  have q: \<open>start_listening example_lib
             [(''{"Event": "OnReceive", "Data": {"bar": "10"}}\<newline>'', ?e)] example_world
             = (None, handle_event example_lib (JStr ''OnReceive'') ?b ?e example_world)\<close>
    by (simp add: process_line_object[OF k] g)
  have m: "(JStr ''OnReceive'', execute_on_receive example_lib ?b ?e, 134)
              \<in> lifecycle_calls example_lib ?b ?e"
    by (simp add: lifecycle_calls_def)
  have h: "fst (execute_on_receive example_lib ?b ?e (intercepting example_world)) = Raised ?x"
    by code_simp
  have f: "execute_on_receive example_lib ?b ?e ?w
              = (Raised ?x, snd (execute_on_receive example_lib ?b ?e ?w))"
    using h unfolding i by (simp add: prod_eq_iff)
  have o: "sys_stderr (snd (execute_on_receive example_lib ?b ?e (intercepting example_world)))
             = \<lparr>pending = [], delivered = []\<rparr>"
          "processor (snd (execute_on_receive example_lib ?b ?e (intercepting example_world)))
             = (processor example_world)\<lparr>module := Some example_module\<rparr>"
    by code_simp+
  have d2: "filter_processor_traceback example_lib ((processor example_world)\<lparr>module := Some example_module\<rparr>)
         (seen_by_dispatcher example_lib 134 ?x)
       = filter_processor_traceback example_lib (processor example_world)
         (seen_by_dispatcher example_lib 134 ?x)"
    by (simp add: filter_processor_traceback_def)
  have z: "exc_is_timeout ?x = False" "exc_msg ?x = ''division by zero''"
    by (simp_all add: passing_def example_exc_def)
  have err: \<open>delivered (sys_stderr (handle_event example_lib (JStr ''OnReceive'') ?b ?e example_world))
       = ''Error: division by zero\<newline>Processor traceback:\<newline>''
         @ ''  File "/srv/handlers/another_main.py", line 44, in on_receive\<newline>''
         @ ''  File "/srv/handlers/calculator/helper.py", line 9, in divide\<newline>''
         @ ''\<newline>\<newline>''\<close>
    unfolding handle_event_lifecycle[OF m f] i
    by (simp add: z print_error_stderr o d2 d)
  show ?thesis
    unfolding q using a b c d err by simp
qed


end
